theory Spec2Isabelle
  imports Main
begin

section \<open>JSON documents and Go dictionaries\<close>

text \<open>
  The program is \<^verbatim>\<open>types/persistentvolume.go\<close>. Its functions exchange JSON as byte
  slices; the model works on the parsed document, so every input is syntactically valid
  JSON and text is a list of characters. An object keeps its members in document order,
  because the struct decoder of \<^verbatim>\<open>encoding/json\<close> visits them in that order. Number
  literals are kept as integers; nothing in the program inspects them.
\<close>

datatype json =
    JNull
  | JBool bool
  | JNum int
  | JStr string
  | JArr "json list"
  | JObj "(string \<times> json) list"

text \<open>A Go \<^verbatim>\<open>map[string]interface{}\<close> holding decoded JSON.\<close>

type_synonym dict = "string \<rightharpoonup> json"

text \<open>
  \<^verbatim>\<open>json.Unmarshal(data, &obj)\<close> into a map stores the members one after the other, so
  the last of several members with one key is the one kept.
\<close>

fun store_members :: "(string \<times> json) list \<Rightarrow> dict \<Rightarrow> dict" where
  "store_members [] obj = obj"
| "store_members ((k, j) # kvs) obj = store_members kvs (obj(k \<mapsto> j))"

text \<open>
  \<^verbatim>\<open>obj := map[string]interface{}{}; err = json.Unmarshal(data, &obj)\<close>: an object fills
  the map, \<^verbatim>\<open>null\<close> leaves it empty without an error, every other value is an error
  (\<open>None\<close>).
\<close>

fun unmarshal_dict :: "json \<Rightarrow> dict option" where
  "unmarshal_dict (JObj kvs) = Some (store_members kvs Map.empty)"
| "unmarshal_dict JNull = Some Map.empty"
| "unmarshal_dict _ = None"

section \<open>\<^verbatim>\<open>strings.Split\<close> and \<^verbatim>\<open>strings.Join\<close>\<close>

text \<open>
  Both calls of \<^verbatim>\<open>strings.Split\<close> in the program have a separator of one character.
  With a non-empty separator the result always has at least one element: a string without
  the separator, the empty string included, gives the one-element slice holding it.
\<close>

fun Split :: "string \<Rightarrow> char \<Rightarrow> string list" where
  "Split [] sep = [[]]"
| "Split (c # cs) sep =
     (if c = sep then [] # Split cs sep
      else (c # hd (Split cs sep)) # tl (Split cs sep))"

fun Join :: "string list \<Rightarrow> string \<Rightarrow> string" where
  "Join [] sep = []"
| "Join [x] sep = x"
| "Join (x # y # ys) sep = x @ sep @ Join (y # ys) sep"

section \<open>Errors\<close>

text \<open>
  Modelled from the spec: package \<^verbatim>\<open>util\<close> (\<^verbatim>\<open>InvalidValueErrorf\<close>,
  \<^verbatim>\<open>InvalidValueForTypeErrorf\<close>, \<^verbatim>\<open>InvalidInstanceError\<close>, \<^verbatim>\<open>InvalidInstanceErrorf\<close>,
  \<^verbatim>\<open>GetStringEntry\<close>) is not among the sources. The spec says that every error carries
  the offending value and a message. Each constructor function is therefore a free
  constructor holding exactly the arguments of the call: the value, the format string and
  the format arguments, unrendered. An argument \<^verbatim>\<open>err.Error()\<close> is kept as the error
  whose text it is.

  \<open>MarshalerError\<close> and \<open>UnmarshalTypeError\<close> are the two errors of
  \<^verbatim>\<open>encoding/json\<close> that the program can meet: the wrapper that \<^verbatim>\<open>json.Marshal\<close>
  puts around the error of a \<^verbatim>\<open>MarshalJSON\<close> method, and the report of a JSON value that
  does not fit the Go type of the named field. \<open>OtherError\<close> stands for errors made
  outside this file.
\<close>

datatype gotype =
    TAccessModes
  | TPersistentVolume
  | TPersistentVolumeMeta
  | TPersistentVolumeSource

text \<open>
  The value an error carries: a string, the input document (\<^verbatim>\<open>string(data)\<close>), or the
  receiver of the method that failed, named by its type; the receiver's content is the
  state the method returns.
\<close>

datatype goval =
    VString string
  | VData json
  | VReceiver gotype

datatype arg =
    AStr string
  | AErrorText error
and error =
    InvalidValueErrorf goval string "arg list"
  | InvalidValueForTypeErrorf goval gotype string "arg list"
  | InvalidInstanceError goval
  | InvalidInstanceErrorf goval string "arg list"
  | MissingOrInvalidField string
  | MarshalerError gotype error
  | UnmarshalTypeError string
  | OtherError string

text \<open>
  Modelled from the spec: \<^verbatim>\<open>util.GetStringEntry(obj, key)\<close> is not among the sources.
  The spec: the required field is read; "absence or non-string value fails with
  MissingOrInvalidField naming the field".
\<close>

definition GetStringEntry :: "dict \<Rightarrow> string \<Rightarrow> error + string" where
  "GetStringEntry obj key =
     (case obj key of
        Some (JStr s) \<Rightarrow> Inr s
      | _ \<Rightarrow> Inl (MissingOrInvalidField key))"

section \<open>Access modes\<close>

text \<open>
  \<^verbatim>\<open>v1.PersistentVolumeAccessMode\<close> is a string type of the Kubernetes API with three
  named constants; a value of the type can be any string.
\<close>

definition ReadOnlyMany :: string where
  "ReadOnlyMany = ''ReadOnlyMany''"

definition ReadWriteMany :: string where
  "ReadWriteMany = ''ReadWriteMany''"

definition ReadWriteOnce :: string where
  "ReadWriteOnce = ''ReadWriteOnce''"

record AccessModes =
  Modes :: "string list"

text \<open>The loop of \<^verbatim>\<open>ToString\<close>: it returns at the first mode that is not known.\<close>

fun ToString_loop :: "string list \<Rightarrow> error + string list" where
  "ToString_loop [] = Inr []"
| "ToString_loop (mode # rest) =
     (if mode = ReadOnlyMany then map_sum id ((#) ''ro'') (ToString_loop rest)
      else if mode = ReadWriteMany then map_sum id ((#) ''rw'') (ToString_loop rest)
      else if mode = ReadWriteOnce then map_sum id ((#) ''rw-once'') (ToString_loop rest)
      else Inl (InvalidInstanceError (VString mode)))"

text \<open>The receiver is a pointer: \<open>None\<close> is \<^verbatim>\<open>nil\<close>.\<close>

fun ToString :: "AccessModes option \<Rightarrow> error + string" where
  "ToString None = Inr []"
| "ToString (Some a) =
     (if length (Modes a) = 0 then Inr []
      else (case ToString_loop (Modes a) of
              Inl err \<Rightarrow> Inl err
            | Inr modes \<Rightarrow> Inr (Join modes '','')))"

text \<open>
  The loop of \<^verbatim>\<open>InitFromString\<close> over the tokens from index \<open>i\<close>, writing into the
  slice \<open>ms\<close> that \<^verbatim>\<open>make\<close> has filled with empty strings. On an unknown token it
  returns the error and leaves the slice as far as it was written.
\<close>

fun InitFromString_loop ::
  "string \<Rightarrow> string list \<Rightarrow> nat \<Rightarrow> string list \<Rightarrow> error option \<times> string list" where
  "InitFromString_loop s [] i ms = (None, ms)"
| "InitFromString_loop s (mode # rest) i ms =
     (if mode = ''ro'' then InitFromString_loop s rest (Suc i) (ms[i := ReadOnlyMany])
      else if mode = ''rw'' then InitFromString_loop s rest (Suc i) (ms[i := ReadWriteMany])
      else if mode = ''rw-once'' then InitFromString_loop s rest (Suc i) (ms[i := ReadWriteOnce])
      else (Some (InvalidValueErrorf (VReceiver TAccessModes) ''couldn't parse (%s)'' [AStr s]), ms))"

text \<open>The method mutates its receiver: the result is the error and the receiver afterwards.\<close>

definition InitFromString :: "AccessModes \<Rightarrow> string \<Rightarrow> error option \<times> AccessModes" where
  "InitFromString a s =
     (let modes = Split s (CHR '','') in
      if length modes = 0 then (None, a\<lparr>Modes := []\<rparr>)
      else (case InitFromString_loop s modes 0 (replicate (length modes) [])
            of (err, ms) \<Rightarrow> (err, a\<lparr>Modes := ms\<rparr>)))"

text \<open>
  \<^verbatim>\<open>AccessModes.MarshalJSON\<close>: the value is the JSON string of \<open>ToString\<close>.
  \<^verbatim>\<open>json.Marshal(&str)\<close> of a string cannot fail, so that branch has no counterpart.
\<close>

definition AccessModes_MarshalJSON :: "AccessModes \<Rightarrow> error + json" where
  "AccessModes_MarshalJSON a =
     (case ToString (Some a) of
        Inl err \<Rightarrow> Inl err
      | Inr str \<Rightarrow> Inr (JStr str))"

text \<open>
  \<^verbatim>\<open>AccessModes.UnmarshalJSON\<close>: \<^verbatim>\<open>json.Unmarshal(data, &str)\<close> with \<^verbatim>\<open>str := ""\<close>
  stores a JSON string, leaves \<^verbatim>\<open>str\<close> alone on \<^verbatim>\<open>null\<close> and fails on every other
  value.
\<close>

fun AccessModes_UnmarshalJSON :: "AccessModes \<Rightarrow> json \<Rightarrow> error option \<times> AccessModes" where
  "AccessModes_UnmarshalJSON a (JStr str) = InitFromString a str"
| "AccessModes_UnmarshalJSON a JNull = InitFromString a []"
| "AccessModes_UnmarshalJSON a data =
     (Some (InvalidValueForTypeErrorf (VData data) TAccessModes
        ''couldn't unmarshal from JSON: %s'' [AErrorText (UnmarshalTypeError ''string'')]), a)"

section \<open>The volume source\<close>

text \<open>
  \<^verbatim>\<open>MarshalledVolume\<close>, the three volume types with their \<^verbatim>\<open>Marshal\<close> and
  \<^verbatim>\<open>Unmarshal\<close> methods, and the constants \<^verbatim>\<open>VolumeTypeGcePD\<close>, \<^verbatim>\<open>VolumeTypeAwsEBS\<close>
  and \<^verbatim>\<open>VolumeTypeHostPath\<close> are declared in files that are not among the sources.
  They are parameters of the model: the volume types are type variables, and a record of
  type \<open>variants\<close> holds the constants and the methods. The fields of
  \<^verbatim>\<open>MarshalledVolume\<close> are the three that \<^verbatim>\<open>MarshalJSON\<close> reads; the values of
  \<^verbatim>\<open>ExtraFields\<close> are taken in their JSON form, so \<^verbatim>\<open>json.Marshal(obj)\<close> succeeds.
\<close>

record MarshalledVolume =
  Type :: string
  Selector :: "string list"
  ExtraFields :: dict

record ('g, 'a, 'h) PersistentVolumeSource =
  GcePD :: "'g option"
  AwsEBS :: "'a option"
  HostPath :: "'h option"

text \<open>
  An \<^verbatim>\<open>Unmarshal\<close> method is only ever called on a freshly allocated volume
  (\<^verbatim>\<open>&GcePDVolume{}\<close>), so it is given as the function from its arguments to the error
  and the content of that volume when the method returns. A \<^verbatim>\<open>Marshal\<close> method returns
  the Go pair \<^verbatim>\<open>(*MarshalledVolume, error)\<close>, either of which may be \<^verbatim>\<open>nil\<close>.
\<close>

record ('g, 'a, 'h) variants =
  VolumeTypeGcePD :: string
  VolumeTypeAwsEBS :: string
  VolumeTypeHostPath :: string
  GcePD_Unmarshal :: "dict \<Rightarrow> string list \<Rightarrow> error option \<times> 'g"
  AwsEBS_Unmarshal :: "dict \<Rightarrow> string list \<Rightarrow> error option \<times> 'a"
  HostPath_Unmarshal :: "string list \<Rightarrow> error option \<times> 'h"
  GcePD_Marshal :: "'g \<Rightarrow> MarshalledVolume option \<times> error option"
  AwsEBS_Marshal :: "'a \<Rightarrow> MarshalledVolume option \<times> error option"
  HostPath_Marshal :: "'h \<Rightarrow> MarshalledVolume option \<times> error option"

text \<open>
  \<^verbatim>\<open>PersistentVolumeSource.Unmarshal\<close>: the \<^verbatim>\<open>switch\<close> on the type tag. Each case
  first stores the new volume in the receiver and then returns what the volume's own
  \<^verbatim>\<open>Unmarshal\<close> returns.
\<close>

definition PersistentVolumeSource_Unmarshal ::
  "('g, 'a, 'h) variants \<Rightarrow> ('g, 'a, 'h) PersistentVolumeSource \<Rightarrow> dict \<Rightarrow> string \<Rightarrow>
   string list \<Rightarrow> error option \<times> ('g, 'a, 'h) PersistentVolumeSource" where
  "PersistentVolumeSource_Unmarshal c v obj volType selector =
     (if volType = VolumeTypeGcePD c then
        (case GcePD_Unmarshal c obj selector of (err, vol) \<Rightarrow> (err, v\<lparr>GcePD := Some vol\<rparr>))
      else if volType = VolumeTypeAwsEBS c then
        (case AwsEBS_Unmarshal c obj selector of (err, vol) \<Rightarrow> (err, v\<lparr>AwsEBS := Some vol\<rparr>))
      else if volType = VolumeTypeHostPath c then
        (case HostPath_Unmarshal c selector of (err, vol) \<Rightarrow> (err, v\<lparr>HostPath := Some vol\<rparr>))
      else
        (Some (InvalidValueErrorf (VString volType) ''unsupported volume type (%s)''
           [AStr volType]), v))"

text \<open>
  \<^verbatim>\<open>PersistentVolumeSource.UnmarshalJSON\<close>. The selector is \<^verbatim>\<open>nil\<close> (the empty list)
  when the key \<^verbatim>\<open>vol_id\<close> is absent; a value under that key that is not a string,
  \<^verbatim>\<open>null\<close> included, is an error.
\<close>

definition PersistentVolumeSource_UnmarshalJSON ::
  "('g, 'a, 'h) variants \<Rightarrow> ('g, 'a, 'h) PersistentVolumeSource \<Rightarrow> json \<Rightarrow>
   error option \<times> ('g, 'a, 'h) PersistentVolumeSource" where
  \<open>PersistentVolumeSource_UnmarshalJSON c v data =
     (case unmarshal_dict data of
        None \<Rightarrow>
          (Some (InvalidValueErrorf (VData data)
             ''expected dictionary for persistent volume'' []), v)
      | Some obj \<Rightarrow>
          (case (case obj ''vol_id'' of
                   None \<Rightarrow> Inr []
                 | Some (JStr volName) \<Rightarrow> Inr (Split volName (CHR '':''))
                 | Some _ \<Rightarrow>
                     Inl (InvalidValueErrorf (VData data)
                       ''expected string for key "vol_id"'' []))
           of
             Inl err \<Rightarrow> (Some err, v)
           | Inr selector \<Rightarrow>
               (case GetStringEntry obj ''vol_type'' of
                  Inl err \<Rightarrow> (Some err, v)
                | Inr volType \<Rightarrow> PersistentVolumeSource_Unmarshal c v obj volType selector)))\<close>

text \<open>
  The three \<^verbatim>\<open>if\<close> statements of \<^verbatim>\<open>PersistentVolumeSource.MarshalJSON\<close>: each one,
  when its slot is not \<^verbatim>\<open>nil\<close>, assigns both \<^verbatim>\<open>marshalledVolume\<close> and \<^verbatim>\<open>err\<close>.
\<close>

definition marshal_slots ::
  "('g, 'a, 'h) variants \<Rightarrow> ('g, 'a, 'h) PersistentVolumeSource \<Rightarrow>
   MarshalledVolume option \<times> error option" where
  "marshal_slots c v =
     (let r = (None, None);
          r = (case GcePD v of Some vol \<Rightarrow> GcePD_Marshal c vol | None \<Rightarrow> r);
          r = (case AwsEBS v of Some vol \<Rightarrow> AwsEBS_Marshal c vol | None \<Rightarrow> r);
          r = (case HostPath v of Some vol \<Rightarrow> HostPath_Marshal c vol | None \<Rightarrow> r)
      in r)"

text \<open>
  The object built from the marshalled volume. Replacing an empty \<^verbatim>\<open>ExtraFields\<close>
  by a new empty map does not change the dictionary; the result is the object that
  \<^verbatim>\<open>json.Marshal(obj)\<close> writes.
\<close>

definition marshal_object :: "MarshalledVolume \<Rightarrow> dict" where
  "marshal_object marshalledVolume =
     (let obj = ExtraFields marshalledVolume;
          obj = obj(''vol_type'' \<mapsto> JStr (Type marshalledVolume))
      in if length (Selector marshalledVolume) > 0
         then obj(''vol_id'' \<mapsto> JStr (Join (Selector marshalledVolume) '':''))
         else obj)"

text \<open>
  After the three statements: the error, if the last assignment left one; the error for
  an empty source, if no slot was set; the object otherwise.
\<close>

definition marshal_result :: "MarshalledVolume option \<times> error option \<Rightarrow> error + dict" where
  "marshal_result r =
     (case r of
        (_, Some err) \<Rightarrow> Inl err
      | (None, None) \<Rightarrow>
          Inl (InvalidInstanceErrorf (VReceiver TPersistentVolumeSource)
            ''empty volume definition'' [])
      | (Some marshalledVolume, None) \<Rightarrow> Inr (marshal_object marshalledVolume))"

definition PersistentVolumeSource_MarshalJSON ::
  "('g, 'a, 'h) variants \<Rightarrow> ('g, 'a, 'h) PersistentVolumeSource \<Rightarrow> error + dict" where
  "PersistentVolumeSource_MarshalJSON c v = marshal_result (marshal_slots c v)"

section \<open>The metadata\<close>

text \<open>
  \<^verbatim>\<open>PersistentVolumeMeta\<close> has no methods: \<^verbatim>\<open>encoding/json\<close> encodes and decodes it
  field by field from the struct tags. The string fields and \<^verbatim>\<open>AccessModes\<close> are
  modelled here. The fields whose types come from libraries (\<^verbatim>\<open>map[string]string\<close>,
  \<^verbatim>\<open>resource.Quantity\<close>, \<^verbatim>\<open>v1.ObjectReference\<close>, \<^verbatim>\<open>v1.PersistentVolumeStatus\<close>) have
  type variables, and the record \<open>fieldcodecs\<close> holds what the library does with them.
\<close>

record ('l, 'q, 'r, 's) PersistentVolumeMeta =
  Version :: string
  Cluster :: string
  Name :: string
  Namespace :: string
  Labels :: 'l
  Annotations :: 'l
  Storage :: "'q option"
  AccessModes :: "AccessModes option"
  Claim :: "'r option"
  ReclaimPolicy :: string
  StorageClass :: string
  MountOptions :: string
  Status :: "'s option"

text \<open>
  What decoding one member into its field reports: nothing, a type mismatch that the
  decoder records before it goes on with the next member, or the error of an
  \<^verbatim>\<open>UnmarshalJSON\<close> method, which ends the decoding.
\<close>

datatype outcome = Done | Saved error | Abort error

text \<open>
  For a map: whether it is empty (\<^verbatim>\<open>omitempty\<close>), its JSON form, and decoding into the
  map the field holds. For a pointer field: the JSON form of the value pointed to, or the
  error \<^verbatim>\<open>json.Marshal\<close> reports, and decoding into the field, which may hold \<^verbatim>\<open>nil\<close>.
\<close>

record ('l, 'q, 'r, 's) fieldcodecs =
  map_empty :: "'l \<Rightarrow> bool"
  map_encode :: "'l \<Rightarrow> json"
  map_decode :: "json \<Rightarrow> 'l \<Rightarrow> outcome \<times> 'l"
  Quantity_encode :: "'q \<Rightarrow> error + json"
  Quantity_decode :: "json \<Rightarrow> 'q option \<Rightarrow> outcome \<times> 'q option"
  ObjectReference_encode :: "'r \<Rightarrow> error + json"
  ObjectReference_decode :: "json \<Rightarrow> 'r option \<Rightarrow> outcome \<times> 'r option"
  Status_encode :: "'s \<Rightarrow> error + json"
  Status_decode :: "json \<Rightarrow> 's option \<Rightarrow> outcome \<times> 's option"

subsection \<open>Encoding the metadata\<close>

text \<open>A string field with \<^verbatim>\<open>omitempty\<close>: left out when empty.\<close>

definition put_string :: "string \<Rightarrow> string \<Rightarrow> dict \<Rightarrow> dict" where
  "put_string key s obj = (if s = [] then obj else obj(key \<mapsto> JStr s))"

definition put_map ::
  "('l, 'q, 'r, 's) fieldcodecs \<Rightarrow> string \<Rightarrow> 'l \<Rightarrow> dict \<Rightarrow> dict" where
  "put_map L key m obj = (if map_empty L m then obj else obj(key \<mapsto> map_encode L m))"

text \<open>A pointer field with \<^verbatim>\<open>omitempty\<close>: left out when \<^verbatim>\<open>nil\<close>.\<close>

definition put_pointer ::
  "string \<Rightarrow> 'x option \<Rightarrow> ('x \<Rightarrow> error + json) \<Rightarrow> dict \<Rightarrow> error + dict" where
  "put_pointer key p enc obj =
     (case p of
        None \<Rightarrow> Inr obj
      | Some x \<Rightarrow> (case enc x of Inl err \<Rightarrow> Inl err | Inr j \<Rightarrow> Inr (obj(key \<mapsto> j))))"

text \<open>
  The \<^verbatim>\<open>modes\<close> field: \<^verbatim>\<open>json.Marshal\<close> calls \<^verbatim>\<open>AccessModes.MarshalJSON\<close> and wraps
  its error.
\<close>

definition AccessModes_encode :: "AccessModes \<Rightarrow> error + json" where
  "AccessModes_encode a =
     (case AccessModes_MarshalJSON a of
        Inl err \<Rightarrow> Inl (MarshalerError TAccessModes err)
      | Inr j \<Rightarrow> Inr j)"

definition then_put :: "error + dict \<Rightarrow> (dict \<Rightarrow> error + dict) \<Rightarrow> error + dict" where
  "then_put r f = (case r of Inl err \<Rightarrow> Inl err | Inr obj \<Rightarrow> f obj)"

text \<open>
  \<^verbatim>\<open>json.Marshal(v.PersistentVolumeMeta)\<close> followed by \<^verbatim>\<open>json.Unmarshal(b, &metaObj)\<close>:
  the fields in the order of the declaration, the first error ending the encoding. The
  bytes are those of an object, so reading them back into a map cannot fail.
\<close>

definition Marshal_Meta ::
  "('l, 'q, 'r, 's) fieldcodecs \<Rightarrow> ('l, 'q, 'r, 's) PersistentVolumeMeta \<Rightarrow> error + dict" where
  "Marshal_Meta L m =
     then_put (then_put (then_put
       (put_pointer ''storage'' (Storage m) (Quantity_encode L)
         (put_map L ''annotations'' (Annotations m)
         (put_map L ''labels'' (Labels m)
         (put_string ''namespace'' (Namespace m)
         (put_string ''name'' (Name m)
         (put_string ''cluster'' (Cluster m)
         (put_string ''version'' (Version m) Map.empty)))))))
       (put_pointer ''modes'' (AccessModes m) AccessModes_encode))
       (put_pointer ''claim'' (Claim m) (ObjectReference_encode L)))
       (\<lambda>obj. put_pointer ''status'' (Status m) (Status_encode L)
         (put_string ''mount_options'' (MountOptions m)
         (put_string ''storage_class'' (StorageClass m)
         (put_string ''reclaim'' (ReclaimPolicy m) obj))))"

subsection \<open>Decoding the metadata\<close>

text \<open>
  A JSON string is stored, \<^verbatim>\<open>null\<close> leaves a string field as it is, any other value is
  a type mismatch.
\<close>

fun string_decode :: "string \<Rightarrow> json \<Rightarrow> string \<Rightarrow> outcome \<times> string" where
  "string_decode key (JStr s) old = (Done, s)"
| "string_decode key JNull old = (Done, old)"
| "string_decode key j old = (Saved (UnmarshalTypeError key), old)"

text \<open>
  The \<^verbatim>\<open>modes\<close> field is a pointer to a type with an \<^verbatim>\<open>UnmarshalJSON\<close> method:
  \<^verbatim>\<open>null\<close> sets the pointer to \<^verbatim>\<open>nil\<close>; otherwise the method runs on the value pointed
  to, a new \<^verbatim>\<open>AccessModes\<close> when the pointer was \<^verbatim>\<open>nil\<close>.
\<close>

fun AccessModes_decode :: "json \<Rightarrow> AccessModes option \<Rightarrow> outcome \<times> AccessModes option" where
  "AccessModes_decode JNull old = (Done, None)"
| "AccessModes_decode j old =
     (case AccessModes_UnmarshalJSON (case old of None \<Rightarrow> \<lparr>Modes = []\<rparr> | Some a \<Rightarrow> a) j of
        (None, a) \<Rightarrow> (Done, Some a)
      | (Some err, a) \<Rightarrow> (Abort err, Some a))"

text \<open>
  One member of the object. The key is compared with the tags as they are written; the
  decoder's second attempt, which ignores case, is not modelled. A key that is no tag is
  skipped.
\<close>

definition set_field ::
  "('l, 'q, 'r, 's) fieldcodecs \<Rightarrow> string \<Rightarrow> json \<Rightarrow> ('l, 'q, 'r, 's) PersistentVolumeMeta \<Rightarrow>
   outcome \<times> ('l, 'q, 'r, 's) PersistentVolumeMeta" where
  "set_field L key j m =
     (if key = ''version'' then
        (case string_decode key j (Version m) of (r, x) \<Rightarrow> (r, m\<lparr>Version := x\<rparr>))
      else if key = ''cluster'' then
        (case string_decode key j (Cluster m) of (r, x) \<Rightarrow> (r, m\<lparr>Cluster := x\<rparr>))
      else if key = ''name'' then
        (case string_decode key j (Name m) of (r, x) \<Rightarrow> (r, m\<lparr>Name := x\<rparr>))
      else if key = ''namespace'' then
        (case string_decode key j (Namespace m) of (r, x) \<Rightarrow> (r, m\<lparr>Namespace := x\<rparr>))
      else if key = ''labels'' then
        (case map_decode L j (Labels m) of (r, x) \<Rightarrow> (r, m\<lparr>Labels := x\<rparr>))
      else if key = ''annotations'' then
        (case map_decode L j (Annotations m) of (r, x) \<Rightarrow> (r, m\<lparr>Annotations := x\<rparr>))
      else if key = ''storage'' then
        (case Quantity_decode L j (Storage m) of (r, x) \<Rightarrow> (r, m\<lparr>Storage := x\<rparr>))
      else if key = ''modes'' then
        (case AccessModes_decode j (AccessModes m) of (r, x) \<Rightarrow> (r, m\<lparr>AccessModes := x\<rparr>))
      else if key = ''claim'' then
        (case ObjectReference_decode L j (Claim m) of (r, x) \<Rightarrow> (r, m\<lparr>Claim := x\<rparr>))
      else if key = ''reclaim'' then
        (case string_decode key j (ReclaimPolicy m) of (r, x) \<Rightarrow> (r, m\<lparr>ReclaimPolicy := x\<rparr>))
      else if key = ''storage_class'' then
        (case string_decode key j (StorageClass m) of (r, x) \<Rightarrow> (r, m\<lparr>StorageClass := x\<rparr>))
      else if key = ''mount_options'' then
        (case string_decode key j (MountOptions m) of (r, x) \<Rightarrow> (r, m\<lparr>MountOptions := x\<rparr>))
      else if key = ''status'' then
        (case Status_decode L j (Status m) of (r, x) \<Rightarrow> (r, m\<lparr>Status := x\<rparr>))
      else (Done, m))"

text \<open>
  The members in document order. \<open>saved\<close> is the first type mismatch met so far; it is
  what the decoder returns at the end unless a method's error ended it before.
\<close>

fun decode_members ::
  "('l, 'q, 'r, 's) fieldcodecs \<Rightarrow> (string \<times> json) list \<Rightarrow>
   ('l, 'q, 'r, 's) PersistentVolumeMeta \<Rightarrow> error option \<Rightarrow>
   error option \<times> ('l, 'q, 'r, 's) PersistentVolumeMeta" where
  "decode_members L [] m saved = (saved, m)"
| "decode_members L ((key, j) # kvs) m saved =
     (case set_field L key j m of
        (Abort err, m') \<Rightarrow> (Some err, m')
      | (Saved err, m') \<Rightarrow>
          decode_members L kvs m' (case saved of None \<Rightarrow> Some err | Some e \<Rightarrow> Some e)
      | (Done, m') \<Rightarrow> decode_members L kvs m' saved)"

text \<open>
  \<^verbatim>\<open>json.Unmarshal(data, &v.PersistentVolumeMeta)\<close>: an object is decoded member by
  member, \<^verbatim>\<open>null\<close> changes nothing, any other value does not fit a struct.
\<close>

fun Unmarshal_Meta ::
  "('l, 'q, 'r, 's) fieldcodecs \<Rightarrow> json \<Rightarrow> ('l, 'q, 'r, 's) PersistentVolumeMeta \<Rightarrow>
   error option \<times> ('l, 'q, 'r, 's) PersistentVolumeMeta" where
  "Unmarshal_Meta L (JObj kvs) m = decode_members L kvs m None"
| "Unmarshal_Meta L JNull m = (None, m)"
| "Unmarshal_Meta L j m = (Some (UnmarshalTypeError ''PersistentVolumeMeta''), m)"

section \<open>The persistent volume\<close>

text \<open>The two embedded structs are the two fields.\<close>

record ('g, 'a, 'h, 'l, 'q, 'r, 's) PersistentVolume =
  Meta :: "('l, 'q, 'r, 's) PersistentVolumeMeta"
  Source :: "('g, 'a, 'h) PersistentVolumeSource"

text \<open>
  \<^verbatim>\<open>PersistentVolume.UnmarshalJSON\<close>. \<^verbatim>\<open>json.Unmarshal(data, &v.PersistentVolumeSource)\<close>
  runs \<^verbatim>\<open>PersistentVolumeSource.UnmarshalJSON\<close> on the document and returns its error
  as it is. Both halves are decoded into the receiver, which keeps what was written when
  an error is returned.
\<close>

definition PersistentVolume_UnmarshalJSON ::
  "('g, 'a, 'h) variants \<Rightarrow> ('l, 'q, 'r, 's) fieldcodecs \<Rightarrow>
   ('g, 'a, 'h, 'l, 'q, 'r, 's) PersistentVolume \<Rightarrow> json \<Rightarrow>
   error option \<times> ('g, 'a, 'h, 'l, 'q, 'r, 's) PersistentVolume" where
  "PersistentVolume_UnmarshalJSON c L v data =
     (case PersistentVolumeSource_UnmarshalJSON c (Source v) data of
        (Some err, src) \<Rightarrow>
          (Some (InvalidValueForTypeErrorf (VData data) TPersistentVolume
             ''couldn't unmarshal volume source from JSON: %s'' [AErrorText err]),
           v\<lparr>Source := src\<rparr>)
      | (None, src) \<Rightarrow>
          (case Unmarshal_Meta L data (Meta v) of
             (Some err, meta) \<Rightarrow>
               (Some (InvalidValueForTypeErrorf (VData data) TPersistentVolume
                  ''couldn't unmarshal metadata from JSON: %s'' [AErrorText err]),
                v\<lparr>Source := src, Meta := meta\<rparr>)
           | (None, meta) \<Rightarrow> (None, v\<lparr>Source := src, Meta := meta\<rparr>)))"

text \<open>
  \<^verbatim>\<open>PersistentVolume.MarshalJSON\<close>. \<^verbatim>\<open>json.Marshal(v.PersistentVolumeSource)\<close> runs
  \<^verbatim>\<open>PersistentVolumeSource.MarshalJSON\<close> and wraps its error in a \<open>MarshalerError\<close>.
  The two dictionaries are read back from bytes that \<^verbatim>\<open>json.Marshal\<close> has just written
  for an object, and the merged dictionary holds decoded JSON only, so the three last
  error returns of the method have no counterpart. The loop
  \<^verbatim>\<open>for key, val := range metaObj { sourceObj[key] = val }\<close> is the map \<open>sourceObj ++ metaObj\<close>.
  The result is the object the returned bytes spell.
\<close>

definition PersistentVolume_MarshalJSON ::
  "('g, 'a, 'h) variants \<Rightarrow> ('l, 'q, 'r, 's) fieldcodecs \<Rightarrow>
   ('g, 'a, 'h, 'l, 'q, 'r, 's) PersistentVolume \<Rightarrow> error + dict" where
  "PersistentVolume_MarshalJSON c L v =
     (case Marshal_Meta L (Meta v) of
        Inl err \<Rightarrow>
          Inl (InvalidInstanceErrorf (VReceiver TPersistentVolume)
            ''couldn't marshal metadata to JSON: %s'' [AErrorText err])
      | Inr metaObj \<Rightarrow>
          (case PersistentVolumeSource_MarshalJSON c (Source v) of
             Inl err \<Rightarrow> Inl (MarshalerError TPersistentVolumeSource err)
           | Inr sourceObj \<Rightarrow> Inr (sourceObj ++ metaObj)))"

section \<open>A sample of the parameters\<close>

text \<open>
  Modelled from the spec: the volume types are not among the sources. The spec's scenario
  has the tag \<^verbatim>\<open>hostpath\<close> and a host path volume whose path is the one token of
  \<^verbatim>\<open>vol_id\<close>; a variant "produces the tag, the selector tokens (possibly empty), and any
  extra scalar fields" and may "fail with a variant-specific error". In the sample a host
  path volume is its path, and a disk volume is its selector tokens with its extra fields;
  decoding a disk volume needs at least one token. The sample serves to evaluate the
  functions on concrete inputs; the theorems hold for all parameters.
\<close>

type_synonym disk = "string list \<times> (string \<times> json) list"

definition disk_Unmarshal :: "dict \<Rightarrow> string list \<Rightarrow> error option \<times> disk" where
  "disk_Unmarshal obj selector =
     (if selector = [] then (Some (OtherError ''expected a disk name''), ([], []))
      else (None, (selector, [])))"

definition disk_Marshal :: "string \<Rightarrow> disk \<Rightarrow> MarshalledVolume option \<times> error option" where
  "disk_Marshal tag vol =
     (Some \<lparr>Type = tag, Selector = fst vol, ExtraFields = map_of (snd vol)\<rparr>, None)"

definition path_Unmarshal :: "string list \<Rightarrow> error option \<times> string" where
  "path_Unmarshal selector =
     (case selector of
        [p] \<Rightarrow> (None, p)
      | _ \<Rightarrow> (Some (OtherError ''expected exactly one path''), []))"

definition path_Marshal :: "string \<Rightarrow> MarshalledVolume option \<times> error option" where
  "path_Marshal p = (Some \<lparr>Type = ''hostpath'', Selector = [p], ExtraFields = Map.empty\<rparr>, None)"

definition sample_variants :: "(disk, disk, string) variants" where
  "sample_variants =
     \<lparr>VolumeTypeGcePD = ''gce_pd'', VolumeTypeAwsEBS = ''aws_ebs'',
      VolumeTypeHostPath = ''hostpath'',
      GcePD_Unmarshal = disk_Unmarshal, AwsEBS_Unmarshal = disk_Unmarshal,
      HostPath_Unmarshal = path_Unmarshal,
      GcePD_Marshal = disk_Marshal ''gce_pd'', AwsEBS_Marshal = disk_Marshal ''aws_ebs'',
      HostPath_Marshal = path_Marshal\<rparr>"

text \<open>
  Sample codecs for the library-typed fields: such a field holds its JSON form, and
  neither direction fails.
\<close>

definition keep_json :: "json \<Rightarrow> json option \<Rightarrow> outcome \<times> json option" where
  "keep_json j old = (Done, if j = JNull then None else Some j)"

definition sample_codecs :: "(json, json, json, json) fieldcodecs" where
  "sample_codecs =
     \<lparr>map_empty = (\<lambda>m. m = JObj [] \<or> m = JNull), map_encode = (\<lambda>m. m),
      map_decode = (\<lambda>j old. (Done, j)),
      Quantity_encode = Inr, Quantity_decode = keep_json,
      ObjectReference_encode = Inr, ObjectReference_decode = keep_json,
      Status_encode = Inr, Status_decode = keep_json\<rparr>"

text \<open>The zero values of the structs.\<close>

definition no_source :: "('g, 'a, 'h) PersistentVolumeSource" where
  "no_source = \<lparr>GcePD = None, AwsEBS = None, HostPath = None\<rparr>"

definition no_meta :: "(json, json, json, json) PersistentVolumeMeta" where
  "no_meta =
     \<lparr>Version = [], Cluster = [], Name = [], Namespace = [], Labels = JNull,
      Annotations = JNull, Storage = None, AccessModes = None, Claim = None,
      ReclaimPolicy = [], StorageClass = [], MountOptions = [], Status = None\<rparr>"

section \<open>Notions used by the statements\<close>

text \<open>
  The spec's wording for what an error tells its reader: an error identifies a string when
  the string is the value it carries or one of its format arguments (for the two library
  errors, the name they hold).
\<close>

fun identifies :: "error \<Rightarrow> string \<Rightarrow> bool" where
  "identifies (InvalidValueErrorf v f args) t = (v = VString t \<or> AStr t \<in> set args)"
| "identifies (InvalidValueForTypeErrorf v ty f args) t = (v = VString t \<or> AStr t \<in> set args)"
| "identifies (InvalidInstanceError v) t = (v = VString t)"
| "identifies (InvalidInstanceErrorf v f args) t = (v = VString t \<or> AStr t \<in> set args)"
| "identifies (MissingOrInvalidField key) t = (key = t)"
| "identifies (MarshalerError ty err) t = False"
| "identifies (UnmarshalTypeError field) t = (field = t)"
| "identifies (OtherError msg) t = False"

text \<open>The three access modes, and the symbol \<open>ToString\<close> writes for each.\<close>

definition known :: "string \<Rightarrow> bool" where
  "known mode = (mode = ReadOnlyMany \<or> mode = ReadWriteMany \<or> mode = ReadWriteOnce)"

definition symbol :: "string \<Rightarrow> string" where
  "symbol mode =
     (if mode = ReadOnlyMany then ''ro''
      else if mode = ReadWriteMany then ''rw''
      else ''rw-once'')"

section \<open>Splitting and joining\<close>

lemma Split_not_Nil: "Split s sep \<noteq> []"
  by (induction s) auto

lemma Split_append_sep:
  "sep \<notin> set t \<Longrightarrow> Split (t @ sep # rest) sep = t # Split rest sep"
  by (induction t) auto

lemma Split_no_sep: "sep \<notin> set t \<Longrightarrow> Split t sep = [t]"
  by (induction t) auto

lemma Split_Join:
  "ts \<noteq> [] \<Longrightarrow> \<forall>t \<in> set ts. sep \<notin> set t \<Longrightarrow> Split (Join ts [sep]) sep = ts"
proof (induction ts "[sep]" rule: Join.induct)
  case 1
  then show ?case by simp
next
  case (2 x)
  then show ?case by (simp add: Split_no_sep)
next
  case (3 x y ys)
  then show ?case by (simp add: Split_append_sep)
qed

section \<open>The compact list of access modes\<close>

lemma symbol_simps:
  "symbol ReadOnlyMany = ''ro''"
  "symbol ReadWriteMany = ''rw''"
  "symbol ReadWriteOnce = ''rw-once''"
  by (simp_all add: symbol_def ReadOnlyMany_def ReadWriteMany_def ReadWriteOnce_def)

lemma symbol_no_comma: "CHR '','' \<notin> set (symbol m)"
  by (simp add: symbol_def)

lemma ToString_loop_known:
  "list_all known ms \<Longrightarrow> ToString_loop ms = Inr (map symbol ms)"
  by (induction ms)
     (auto simp: known_def symbol_def ReadOnlyMany_def ReadWriteMany_def ReadWriteOnce_def)

text \<open>
  The loop of \<open>InitFromString\<close> on the symbols of known modes fills the slice from the
  index it starts at and returns no error.
\<close>

lemma InitFromString_loop_known:
  "list_all known ms \<Longrightarrow>
   InitFromString_loop s (map symbol ms) (length pre) (pre @ replicate (length ms) []) =
     (None, pre @ ms)"
proof (induction ms arbitrary: pre)
  case Nil
  then show ?case by simp
next
  case (Cons m ms)
  have upd: "(pre @ replicate (length (m # ms)) [])[length pre := m] =
             (pre @ [m]) @ replicate (length ms) []"
    by simp
  from Cons.prems have k: "known m" and ks: "list_all known ms" by simp_all
  have step: "InitFromString_loop s (map symbol ms) (Suc (length pre))
                ((pre @ [m]) @ replicate (length ms) []) = (None, (pre @ [m]) @ ms)"
    using Cons.IH [OF ks, of "pre @ [m]"] by simp
  from k show ?case
    unfolding known_def
  proof (elim disjE)
    assume "m = ReadOnlyMany"
    then show ?thesis using step upd by (simp add: symbol_simps)
  next
    assume "m = ReadWriteMany"
    then show ?thesis using step upd by (simp add: symbol_simps)
  next
    assume "m = ReadWriteOnce"
    then show ?thesis using step upd by (simp add: symbol_simps)
  qed
qed

text \<open>
  For a list that is not empty and holds known modes only, the string of \<open>ToString\<close>
  is read back by \<open>InitFromString\<close> as the same list.
\<close>

lemma ToString_InitFromString_nonempty:
  assumes "ms \<noteq> []" and "list_all known ms"
  shows "ToString (Some \<lparr>Modes = ms\<rparr>) = Inr (Join (map symbol ms) '','') \<and>
         InitFromString a (Join (map symbol ms) '','') = (None, a\<lparr>Modes := ms\<rparr>)"
proof -
  let ?s = "Join (map symbol ms) '',''"
  have ts: "ToString (Some \<lparr>Modes = ms\<rparr>) = Inr ?s"
    using assms by (simp add: ToString_loop_known)
  have sp: "Split ?s (CHR '','') = map symbol ms"
    using assms(1) by (intro Split_Join) (auto simp: symbol_no_comma)
  have "InitFromString_loop ?s (map symbol ms) (length ([]::string list))
          ([] @ replicate (length ms) []) = (None, [] @ ms)"
    by (rule InitFromString_loop_known [OF assms(2)])
  then have "InitFromString a ?s = (None, a\<lparr>Modes := ms\<rparr>)"
    using assms(1) sp by (simp add: InitFromString_def)
  with ts show ?thesis by simp
qed

text \<open>
  C4. Claimed: for every list of access modes, the empty list included, \<open>ToString\<close>
  followed by \<open>InitFromString\<close> gives the list back. On the empty list \<open>ToString\<close>
  gives the empty string, which \<open>InitFromString\<close> rejects: \<^verbatim>\<open>strings.Split\<close>
  returns one empty token for it, so the test \<^verbatim>\<open>len(modes) == 0\<close> never holds and the
  empty token reaches the \<^verbatim>\<open>default\<close> case. The receiver is left holding one empty mode.
\<close>

theorem ToString_InitFromString_empty_list:
  "ToString (Some \<lparr>Modes = []\<rparr>) = Inr [] \<and>
   fst (InitFromString \<lparr>Modes = []\<rparr> []) =
     Some (InvalidValueErrorf (VReceiver TAccessModes) ''couldn't parse (%s)'' [AStr []]) \<and>
   snd (InitFromString \<lparr>Modes = []\<rparr> []) \<noteq> \<lparr>Modes = []\<rparr>"
  by (simp add: InitFromString_def)

text \<open>
  C5. Claimed: on the empty string \<open>InitFromString\<close> succeeds with an empty list. It
  returns the error of the \<^verbatim>\<open>default\<close> case, for every receiver, and leaves the receiver
  with a list of one empty mode.
\<close>

theorem InitFromString_empty_string:
  "InitFromString a [] =
     (Some (InvalidValueErrorf (VReceiver TAccessModes) ''couldn't parse (%s)'' [AStr []]),
      a\<lparr>Modes := [[]]\<rparr>)"
  by (simp add: InitFromString_def)

lemma InitFromString_loop_unknown:
  "t \<in> set modes \<Longrightarrow> t \<noteq> ''ro'' \<Longrightarrow> t \<noteq> ''rw'' \<Longrightarrow> t \<noteq> ''rw-once'' \<Longrightarrow>
   fst (InitFromString_loop s modes i ms) =
     Some (InvalidValueErrorf (VReceiver TAccessModes) ''couldn't parse (%s)'' [AStr s])"
  by (induction modes arbitrary: i ms) auto

text \<open>
  C8, as the code has it. When one of the comma-separated tokens of \<open>s\<close> is none of
  \<^verbatim>\<open>ro\<close>, \<^verbatim>\<open>rw\<close>, \<^verbatim>\<open>rw-once\<close>, \<open>InitFromString\<close> fails with the invalid-value error
  that carries the receiver and the message format \<^verbatim>\<open>couldn't parse (%s)\<close> filled with
  the whole string \<open>s\<close>: the error identifies the original string.
\<close>

theorem InitFromString_unknown_token:
  assumes "t \<in> set (Split s (CHR '',''))"
    and "t \<noteq> ''ro''" and "t \<noteq> ''rw''" and "t \<noteq> ''rw-once''"
  shows "fst (InitFromString a s) =
           Some (InvalidValueErrorf (VReceiver TAccessModes) ''couldn't parse (%s)'' [AStr s]) \<and>
         identifies
           (InvalidValueErrorf (VReceiver TAccessModes) ''couldn't parse (%s)'' [AStr s]) s"
proof -
  have "Split s (CHR '','') \<noteq> []" by (rule Split_not_Nil)
  then show ?thesis
    using InitFromString_loop_unknown
      [OF assms, of s 0 "replicate (length (Split s (CHR '',''))) []"]
    by (simp add: InitFromString_def Let_def case_prod_beta)
qed

theorem InitFromString_unknown_token_witness:
  "''bogus'' \<in> set (Split ''ro,bogus'' (CHR '','')) \<and>
   fst (InitFromString \<lparr>Modes = []\<rparr> ''ro,bogus'') =
     Some (InvalidValueErrorf (VReceiver TAccessModes) ''couldn't parse (%s)''
       [AStr ''ro,bogus''])"
  using InitFromString_unknown_token [of "''bogus''" "''ro,bogus''" "\<lparr>Modes = []\<rparr>"]
  by simp

text \<open>
  C8, as claimed: the error identifies the token that was not parsed. For the string
  \<^verbatim>\<open>ro,bogus\<close> the error holds the receiver and the whole string; the token \<^verbatim>\<open>bogus\<close>
  is neither its value nor a format argument.
\<close>

theorem InitFromString_token_not_identified:
  "fst (InitFromString \<lparr>Modes = []\<rparr> ''ro,bogus'') =
     Some (InvalidValueErrorf (VReceiver TAccessModes) ''couldn't parse (%s)''
       [AStr ''ro,bogus'']) \<and>
   \<not> identifies
       (InvalidValueErrorf (VReceiver TAccessModes) ''couldn't parse (%s)'' [AStr ''ro,bogus''])
       ''bogus''"
  by (simp add: InitFromString_def ReadOnlyMany_def)

section \<open>The sample parameters, unfolded\<close>

lemma sample_tags:
  "VolumeTypeGcePD sample_variants = ''gce_pd''"
  "VolumeTypeAwsEBS sample_variants = ''aws_ebs''"
  "VolumeTypeHostPath sample_variants = ''hostpath''"
  by (simp_all add: sample_variants_def)

lemma sample_methods:
  "GcePD_Unmarshal sample_variants = disk_Unmarshal"
  "AwsEBS_Unmarshal sample_variants = disk_Unmarshal"
  "HostPath_Unmarshal sample_variants = path_Unmarshal"
  "GcePD_Marshal sample_variants = disk_Marshal ''gce_pd''"
  "AwsEBS_Marshal sample_variants = disk_Marshal ''aws_ebs''"
  "HostPath_Marshal sample_variants = path_Marshal"
  by (simp_all add: sample_variants_def)

lemma sample_codec_fields:
  "map_empty sample_codecs = (\<lambda>m. m = JObj [] \<or> m = JNull)"
  "map_encode sample_codecs = (\<lambda>m. m)"
  "map_decode sample_codecs = (\<lambda>j old. (Done, j))"
  "Quantity_encode sample_codecs = Inr"
  "Quantity_decode sample_codecs = keep_json"
  "ObjectReference_encode sample_codecs = Inr"
  "ObjectReference_decode sample_codecs = keep_json"
  "Status_encode sample_codecs = Inr"
  "Status_decode sample_codecs = keep_json"
  by (simp_all add: sample_codecs_def)

lemmas Marshal_Meta_defs =
  Marshal_Meta_def then_put_def put_pointer_def put_map_def put_string_def
  AccessModes_encode_def AccessModes_MarshalJSON_def sample_codec_fields

section \<open>Decoding the volume source\<close>

text \<open>
  C9. When the type tag is one of the three registered tags and the volume's own
  \<open>Unmarshal\<close> then fails, \<open>PersistentVolumeSource_Unmarshal\<close> returns that error and
  the receiver it leaves has the slot of that tag set to the newly allocated volume, as far
  as the volume's method has filled it: the receiver is changed although the decoding
  failed. The three tags are distinct, as the case constants of a Go \<^verbatim>\<open>switch\<close> are.
\<close>

theorem Unmarshal_not_atomic:
  assumes "distinct [VolumeTypeGcePD c, VolumeTypeAwsEBS c, VolumeTypeHostPath c]"
  shows "(volType = VolumeTypeGcePD c \<and> fst (GcePD_Unmarshal c obj selector) = Some err \<longrightarrow>
            PersistentVolumeSource_Unmarshal c v obj volType selector =
              (Some err, v\<lparr>GcePD := Some (snd (GcePD_Unmarshal c obj selector))\<rparr>)) \<and>
         (volType = VolumeTypeAwsEBS c \<and> fst (AwsEBS_Unmarshal c obj selector) = Some err \<longrightarrow>
            PersistentVolumeSource_Unmarshal c v obj volType selector =
              (Some err, v\<lparr>AwsEBS := Some (snd (AwsEBS_Unmarshal c obj selector))\<rparr>)) \<and>
         (volType = VolumeTypeHostPath c \<and> fst (HostPath_Unmarshal c selector) = Some err \<longrightarrow>
            PersistentVolumeSource_Unmarshal c v obj volType selector =
              (Some err, v\<lparr>HostPath := Some (snd (HostPath_Unmarshal c selector))\<rparr>))"
  using assms by (auto simp: PersistentVolumeSource_Unmarshal_def split: prod.splits)

theorem Unmarshal_not_atomic_witness:
  "distinct [VolumeTypeGcePD sample_variants, VolumeTypeAwsEBS sample_variants,
     VolumeTypeHostPath sample_variants] \<and>
   fst (GcePD_Unmarshal sample_variants Map.empty []) = Some (OtherError ''expected a disk name'') \<and>
   PersistentVolumeSource_Unmarshal sample_variants no_source Map.empty ''gce_pd'' [] =
     (Some (OtherError ''expected a disk name''),
      \<lparr>GcePD = Some ([], []), AwsEBS = None, HostPath = None\<rparr>) \<and>
   PersistentVolumeSource_Unmarshal sample_variants no_source Map.empty ''aws_ebs'' [] =
     (Some (OtherError ''expected a disk name''),
      \<lparr>GcePD = None, AwsEBS = Some ([], []), HostPath = None\<rparr>) \<and>
   PersistentVolumeSource_Unmarshal sample_variants no_source Map.empty ''hostpath'' [] =
     (Some (OtherError ''expected exactly one path''),
      \<lparr>GcePD = None, AwsEBS = None, HostPath = Some []\<rparr>)"
  using Unmarshal_not_atomic [of sample_variants "''gce_pd''" Map.empty "[]" "OtherError ''expected a disk name''" no_source]
    Unmarshal_not_atomic [of sample_variants "''aws_ebs''" Map.empty "[]" "OtherError ''expected a disk name''" no_source]
    Unmarshal_not_atomic [of sample_variants "''hostpath''" Map.empty "[]" "OtherError ''expected exactly one path''" no_source]
  by (simp add: sample_tags sample_methods disk_Unmarshal_def path_Unmarshal_def no_source_def)

text \<open>
  C10. When the object holds, under the key \<^verbatim>\<open>vol_id\<close>, a value that is not a JSON
  string, \<open>PersistentVolumeSource_UnmarshalJSON\<close> fails with the invalid-value error
  \<^verbatim>\<open>expected string for key "vol_id"\<close> carrying the document. The result does not depend
  on the type tag or on the parameters \<open>c\<close> (no volume is consulted), and the receiver
  is unchanged.
\<close>

theorem UnmarshalJSON_vol_id_not_string:
  assumes "unmarshal_dict data = Some obj"
    and "obj ''vol_id'' = Some j"
    and "\<forall>s. j \<noteq> JStr s"
  shows \<open>PersistentVolumeSource_UnmarshalJSON c v data =
           (Some (InvalidValueErrorf (VData data) ''expected string for key "vol_id"'' []), v)\<close>
  using assms by (cases j) (simp_all add: PersistentVolumeSource_UnmarshalJSON_def)

theorem UnmarshalJSON_vol_id_not_string_witness:
  \<open>unmarshal_dict (JObj [(''vol_type'', JStr ''hostpath''), (''vol_id'', JNum 5)]) =
     Some [''vol_type'' \<mapsto> JStr ''hostpath'', ''vol_id'' \<mapsto> JNum 5] \<and>
   PersistentVolumeSource_UnmarshalJSON sample_variants no_source
       (JObj [(''vol_type'', JStr ''hostpath''), (''vol_id'', JNum 5)]) =
     (Some (InvalidValueErrorf (VData (JObj [(''vol_type'', JStr ''hostpath''), (''vol_id'', JNum 5)]))
        ''expected string for key "vol_id"'' []), no_source)\<close>
  using UnmarshalJSON_vol_id_not_string
    [of "JObj [(''vol_type'', JStr ''hostpath''), (''vol_id'', JNum 5)]"
        "[''vol_type'' \<mapsto> JStr ''hostpath'', ''vol_id'' \<mapsto> JNum 5]" "JNum 5"
        sample_variants no_source]
  by simp

text \<open>
  C7, as the code has it. When the key \<^verbatim>\<open>vol_type\<close> holds a string that is none of the
  three registered tags, and the key \<^verbatim>\<open>vol_id\<close> is absent or holds a string,
  \<open>PersistentVolumeSource_UnmarshalJSON\<close> fails with the invalid-value error
  \<^verbatim>\<open>unsupported volume type (%s)\<close> that carries the tag, and the receiver is unchanged:
  no slot is set.
\<close>

theorem UnmarshalJSON_unsupported:
  assumes "unmarshal_dict data = Some obj"
    and "obj ''vol_type'' = Some (JStr volType)"
    and "volType \<noteq> VolumeTypeGcePD c" and "volType \<noteq> VolumeTypeAwsEBS c"
    and "volType \<noteq> VolumeTypeHostPath c"
    and "obj ''vol_id'' = None \<or> (\<exists>volName. obj ''vol_id'' = Some (JStr volName))"
  shows "PersistentVolumeSource_UnmarshalJSON c v data =
           (Some (InvalidValueErrorf (VString volType) ''unsupported volume type (%s)''
              [AStr volType]), v)"
  using assms
  by (auto simp: PersistentVolumeSource_UnmarshalJSON_def GetStringEntry_def
        PersistentVolumeSource_Unmarshal_def)

theorem UnmarshalJSON_unsupported_witness:
  "unmarshal_dict (JObj [(''vol_type'', JStr ''nfs''), (''vol_id'', JStr ''server:/export'')]) =
     Some [''vol_type'' \<mapsto> JStr ''nfs'', ''vol_id'' \<mapsto> JStr ''server:/export''] \<and>
   PersistentVolumeSource_UnmarshalJSON sample_variants no_source
       (JObj [(''vol_type'', JStr ''nfs''), (''vol_id'', JStr ''server:/export'')]) =
     (Some (InvalidValueErrorf (VString ''nfs'') ''unsupported volume type (%s)'' [AStr ''nfs'']),
      no_source)"
  using UnmarshalJSON_unsupported
    [of "JObj [(''vol_type'', JStr ''nfs''), (''vol_id'', JStr ''server:/export'')]"
        "[''vol_type'' \<mapsto> JStr ''nfs'', ''vol_id'' \<mapsto> JStr ''server:/export'']" "''nfs''"
        sample_variants no_source]
  by (simp add: sample_tags)

text \<open>
  C7, as claimed, for every object with an unregistered tag: the object
  \<^verbatim>\<open>{"vol_type": "nfs", "vol_id": 5}\<close> has the unregistered tag \<^verbatim>\<open>nfs\<close>, and decoding it
  fails with the error about \<^verbatim>\<open>vol_id\<close>, which does not carry the tag: the check of
  \<^verbatim>\<open>vol_id\<close> comes before the tag is read.
\<close>

theorem UnmarshalJSON_unknown_tag_bad_vol_id:
  \<open>PersistentVolumeSource_UnmarshalJSON sample_variants no_source
       (JObj [(''vol_type'', JStr ''nfs''), (''vol_id'', JNum 5)]) =
     (Some (InvalidValueErrorf (VData (JObj [(''vol_type'', JStr ''nfs''), (''vol_id'', JNum 5)]))
        ''expected string for key "vol_id"'' []), no_source) \<and>
   \<not> identifies
       (InvalidValueErrorf (VData (JObj [(''vol_type'', JStr ''nfs''), (''vol_id'', JNum 5)]))
          ''expected string for key "vol_id"'' []) ''nfs''\<close>
  by (simp add: PersistentVolumeSource_UnmarshalJSON_def)

section \<open>Encoding the volume source\<close>

text \<open>
  C2, as the code has it. \<open>PersistentVolumeSource_MarshalJSON\<close> looks at the slots in
  the order \<open>GcePD\<close>, \<open>AwsEBS\<close>, \<open>HostPath\<close>, and every slot that is not \<^verbatim>\<open>nil\<close>
  overwrites both the marshalled volume and the error of the slots before it. The output is
  therefore that of the last slot that is set: of \<open>HostPath\<close> if it is set, else of
  \<open>AwsEBS\<close> if it is set, else of \<open>GcePD\<close>; with no slot set the method fails with
  \<^verbatim>\<open>empty volume definition\<close>.
\<close>

theorem MarshalJSON_last_slot:
  "(HostPath v = Some h \<longrightarrow>
      PersistentVolumeSource_MarshalJSON c v = marshal_result (HostPath_Marshal c h)) \<and>
   (HostPath v = None \<and> AwsEBS v = Some a \<longrightarrow>
      PersistentVolumeSource_MarshalJSON c v = marshal_result (AwsEBS_Marshal c a)) \<and>
   (HostPath v = None \<and> AwsEBS v = None \<and> GcePD v = Some g \<longrightarrow>
      PersistentVolumeSource_MarshalJSON c v = marshal_result (GcePD_Marshal c g)) \<and>
   (HostPath v = None \<and> AwsEBS v = None \<and> GcePD v = None \<longrightarrow>
      PersistentVolumeSource_MarshalJSON c v =
        Inl (InvalidInstanceErrorf (VReceiver TPersistentVolumeSource)
          ''empty volume definition'' []))"
  by (simp add: PersistentVolumeSource_MarshalJSON_def marshal_slots_def marshal_result_def)

theorem MarshalJSON_last_slot_witness:
  "PersistentVolumeSource_MarshalJSON sample_variants
       \<lparr>GcePD = Some ([''disk1''], []), AwsEBS = None, HostPath = Some ''/data''\<rparr> =
     marshal_result (path_Marshal ''/data'') \<and>
   PersistentVolumeSource_MarshalJSON sample_variants
       \<lparr>GcePD = Some ([''disk1''], []), AwsEBS = Some ([''vol-1''], []), HostPath = None\<rparr> =
     marshal_result (disk_Marshal ''aws_ebs'' ([''vol-1''], [])) \<and>
   PersistentVolumeSource_MarshalJSON sample_variants
       \<lparr>GcePD = Some ([''disk1''], []), AwsEBS = None, HostPath = None\<rparr> =
     marshal_result (disk_Marshal ''gce_pd'' ([''disk1''], [])) \<and>
   PersistentVolumeSource_MarshalJSON sample_variants
       \<lparr>GcePD = None, AwsEBS = None, HostPath = None\<rparr> =
     Inl (InvalidInstanceErrorf (VReceiver TPersistentVolumeSource) ''empty volume definition'' [])"
  using
    MarshalJSON_last_slot [of "\<lparr>GcePD = Some ([''disk1''], []), AwsEBS = None, HostPath = Some ''/data''\<rparr>"
      "''/data''" sample_variants]
    MarshalJSON_last_slot [of "\<lparr>GcePD = Some ([''disk1''], []), AwsEBS = Some ([''vol-1''], []), HostPath = None\<rparr>"
      _ sample_variants "([''vol-1''], [])"]
    MarshalJSON_last_slot [of "\<lparr>GcePD = Some ([''disk1''], []), AwsEBS = None, HostPath = None\<rparr>"
      _ sample_variants _ "([''disk1''], [])"]
    MarshalJSON_last_slot [of "\<lparr>GcePD = None, AwsEBS = None, HostPath = None\<rparr>" _ sample_variants]
  by (simp add: sample_methods)

text \<open>
  C2, as claimed: the first slot that is set is the one marshalled. With both \<open>GcePD\<close>
  and \<open>HostPath\<close> set, the output has the tag and the identifier of the host path
  volume, not those that the disk volume in the first slot marshals to.
\<close>

theorem MarshalJSON_not_first_slot:
  "(case PersistentVolumeSource_MarshalJSON sample_variants
           \<lparr>GcePD = Some ([''disk1''], []), AwsEBS = None, HostPath = Some ''/data''\<rparr>
    of Inr obj \<Rightarrow> (obj ''vol_type'', obj ''vol_id'') | Inl err \<Rightarrow> (None, None)) =
     (Some (JStr ''hostpath''), Some (JStr ''/data'')) \<and>
   (case marshal_result (GcePD_Marshal sample_variants ([''disk1''], []))
    of Inr obj \<Rightarrow> (obj ''vol_type'', obj ''vol_id'') | Inl err \<Rightarrow> (None, None)) =
     (Some (JStr ''gce_pd''), Some (JStr ''disk1''))"
  by (simp add: PersistentVolumeSource_MarshalJSON_def marshal_slots_def marshal_result_def
        marshal_object_def sample_methods disk_Marshal_def path_Marshal_def)

section \<open>Encoding the persistent volume\<close>

text \<open>
  C3. When the metadata marshals to an object holding \<open>x\<close> under a key, and the extra
  fields of the marshalled volume hold a different value \<open>y\<close> under the same key,
  \<open>PersistentVolume_MarshalJSON\<close> succeeds and its output holds the metadata's value
  \<open>x\<close> under that key.
\<close>

theorem MarshalJSON_metadata_wins:
  assumes "Marshal_Meta L (Meta v) = Inr metaObj"
    and "metaObj key = Some x"
    and "marshal_slots c (Source v) = (Some marshalledVolume, None)"
    and "ExtraFields marshalledVolume key = Some y"
    and "x \<noteq> y"
  shows "PersistentVolume_MarshalJSON c L v = Inr (marshal_object marshalledVolume ++ metaObj) \<and>
         (marshal_object marshalledVolume ++ metaObj) key = Some x \<and>
         (marshal_object marshalledVolume ++ metaObj) key \<noteq> Some y"
  using assms
  by (simp add: PersistentVolume_MarshalJSON_def PersistentVolumeSource_MarshalJSON_def
        marshal_result_def)

theorem MarshalJSON_metadata_wins_witness:
  "Marshal_Meta sample_codecs (no_meta\<lparr>Name := ''pv1''\<rparr>) = Inr [''name'' \<mapsto> JStr ''pv1''] \<and>
   marshal_slots sample_variants
       \<lparr>GcePD = Some ([''disk1''], [(''name'', JStr ''disk one'')]), AwsEBS = None, HostPath = None\<rparr> =
     (Some \<lparr>Type = ''gce_pd'', Selector = [''disk1''],
            ExtraFields = [''name'' \<mapsto> JStr ''disk one'']\<rparr>, None) \<and>
   (case PersistentVolume_MarshalJSON sample_variants sample_codecs
           \<lparr>Meta = no_meta\<lparr>Name := ''pv1''\<rparr>,
            Source = \<lparr>GcePD = Some ([''disk1''], [(''name'', JStr ''disk one'')]),
                      AwsEBS = None, HostPath = None\<rparr>\<rparr>
    of Inr out \<Rightarrow> out ''name'' | Inl err \<Rightarrow> None) = Some (JStr ''pv1'')"
proof -
  have m: "Marshal_Meta sample_codecs (no_meta\<lparr>Name := ''pv1''\<rparr>) = Inr [''name'' \<mapsto> JStr ''pv1'']"
    by (simp add: Marshal_Meta_defs no_meta_def)
  have s: "marshal_slots sample_variants
       \<lparr>GcePD = Some ([''disk1''], [(''name'', JStr ''disk one'')]), AwsEBS = None, HostPath = None\<rparr> =
     (Some \<lparr>Type = ''gce_pd'', Selector = [''disk1''],
            ExtraFields = [''name'' \<mapsto> JStr ''disk one'']\<rparr>, None)"
    by (simp add: marshal_slots_def sample_methods disk_Marshal_def)
  show ?thesis
    using m s MarshalJSON_metadata_wins [of sample_codecs
      "\<lparr>Meta = no_meta\<lparr>Name := ''pv1''\<rparr>,
            Source = \<lparr>GcePD = Some ([''disk1''], [(''name'', JStr ''disk one'')]),
                      AwsEBS = None, HostPath = None\<rparr>\<rparr>"
      "[''name'' \<mapsto> JStr ''pv1'']" "''name''" "JStr ''pv1''" sample_variants
      "\<lparr>Type = ''gce_pd'', Selector = [''disk1''], ExtraFields = [''name'' \<mapsto> JStr ''disk one'']\<rparr>"
      "JStr ''disk one''"]
    by simp
qed

section \<open>Decoding the persistent volume\<close>

text \<open>
  C6, as the code has it. When the decoding of the volume source fails with \<open>err\<close>,
  \<open>PersistentVolume_UnmarshalJSON\<close> fails with a new error: an
  \<^verbatim>\<open>InvalidValueForTypeErrorf\<close> that carries the document and the message
  \<^verbatim>\<open>couldn't unmarshal volume source from JSON: %s\<close> filled with the text of \<open>err\<close>.
  When the source is decoded and the decoding of the metadata fails with \<open>err\<close>, it
  fails with the same kind of error and the message
  \<^verbatim>\<open>couldn't unmarshal metadata from JSON: %s\<close>.
\<close>

theorem UnmarshalJSON_wraps:
  "(fst (PersistentVolumeSource_UnmarshalJSON c (Source v) data) = Some err \<longrightarrow>
      fst (PersistentVolume_UnmarshalJSON c L v data) =
        Some (InvalidValueForTypeErrorf (VData data) TPersistentVolume
          ''couldn't unmarshal volume source from JSON: %s'' [AErrorText err])) \<and>
   (fst (PersistentVolumeSource_UnmarshalJSON c (Source v) data) = None \<and>
    fst (Unmarshal_Meta L data (Meta v)) = Some err \<longrightarrow>
      fst (PersistentVolume_UnmarshalJSON c L v data) =
        Some (InvalidValueForTypeErrorf (VData data) TPersistentVolume
          ''couldn't unmarshal metadata from JSON: %s'' [AErrorText err]))"
  by (auto simp: PersistentVolume_UnmarshalJSON_def split: prod.splits option.splits)

theorem UnmarshalJSON_wraps_witness:
  \<open>fst (PersistentVolumeSource_UnmarshalJSON sample_variants no_source
          (JObj [(''vol_id'', JNum 5)])) =
     Some (InvalidValueErrorf (VData (JObj [(''vol_id'', JNum 5)]))
       ''expected string for key "vol_id"'' []) \<and>
   fst (PersistentVolume_UnmarshalJSON sample_variants sample_codecs
          \<lparr>Meta = no_meta, Source = no_source\<rparr> (JObj [(''vol_id'', JNum 5)])) =
     Some (InvalidValueForTypeErrorf (VData (JObj [(''vol_id'', JNum 5)])) TPersistentVolume
       ''couldn't unmarshal volume source from JSON: %s''
       [AErrorText (InvalidValueErrorf (VData (JObj [(''vol_id'', JNum 5)]))
          ''expected string for key "vol_id"'' [])]) \<and>
   fst (PersistentVolumeSource_UnmarshalJSON sample_variants no_source
          (JObj [(''vol_type'', JStr ''hostpath''), (''vol_id'', JStr ''/data''),
                 (''modes'', JStr ''ro,bogus'')])) = None \<and>
   fst (Unmarshal_Meta sample_codecs
          (JObj [(''vol_type'', JStr ''hostpath''), (''vol_id'', JStr ''/data''),
                 (''modes'', JStr ''ro,bogus'')]) no_meta) =
     Some (InvalidValueErrorf (VReceiver TAccessModes) ''couldn't parse (%s)''
       [AStr ''ro,bogus'']) \<and>
   fst (PersistentVolume_UnmarshalJSON sample_variants sample_codecs
          \<lparr>Meta = no_meta, Source = no_source\<rparr>
          (JObj [(''vol_type'', JStr ''hostpath''), (''vol_id'', JStr ''/data''),
                 (''modes'', JStr ''ro,bogus'')])) =
     Some (InvalidValueForTypeErrorf
       (VData (JObj [(''vol_type'', JStr ''hostpath''), (''vol_id'', JStr ''/data''),
                 (''modes'', JStr ''ro,bogus'')])) TPersistentVolume
       ''couldn't unmarshal metadata from JSON: %s''
       [AErrorText (InvalidValueErrorf (VReceiver TAccessModes) ''couldn't parse (%s)''
          [AStr ''ro,bogus''])])\<close>
proof -
  have src1: \<open>fst (PersistentVolumeSource_UnmarshalJSON sample_variants no_source
          (JObj [(''vol_id'', JNum 5)])) =
     Some (InvalidValueErrorf (VData (JObj [(''vol_id'', JNum 5)]))
       ''expected string for key "vol_id"'' [])\<close>
    by (simp add: PersistentVolumeSource_UnmarshalJSON_def)
  have src2: "fst (PersistentVolumeSource_UnmarshalJSON sample_variants no_source
          (JObj [(''vol_type'', JStr ''hostpath''), (''vol_id'', JStr ''/data''),
                 (''modes'', JStr ''ro,bogus'')])) = None"
    by (simp add: PersistentVolumeSource_UnmarshalJSON_def GetStringEntry_def
          PersistentVolumeSource_Unmarshal_def sample_tags sample_methods path_Unmarshal_def)
  have meta2: "fst (Unmarshal_Meta sample_codecs
          (JObj [(''vol_type'', JStr ''hostpath''), (''vol_id'', JStr ''/data''),
                 (''modes'', JStr ''ro,bogus'')]) no_meta) =
     Some (InvalidValueErrorf (VReceiver TAccessModes) ''couldn't parse (%s)''
       [AStr ''ro,bogus''])"
    by (simp add: set_field_def no_meta_def InitFromString_def ReadOnlyMany_def)
  show ?thesis
    using src1 src2 meta2
      UnmarshalJSON_wraps [of sample_variants "\<lparr>Meta = no_meta, Source = no_source\<rparr>"
        "JObj [(''vol_id'', JNum 5)]" _ sample_codecs]
      UnmarshalJSON_wraps [of sample_variants "\<lparr>Meta = no_meta, Source = no_source\<rparr>"
        "JObj [(''vol_type'', JStr ''hostpath''), (''vol_id'', JStr ''/data''),
                 (''modes'', JStr ''ro,bogus'')]" _ sample_codecs]
    by simp
qed

text \<open>
  C6, as claimed: the error of the failing half is returned as it is. For the object
  \<^verbatim>\<open>{"vol_id": 5}\<close> the decoding of the source fails with the error about \<^verbatim>\<open>vol_id\<close>,
  and the error of \<open>PersistentVolume_UnmarshalJSON\<close> is a different one.
\<close>

theorem UnmarshalJSON_error_not_forwarded:
  \<open>fst (PersistentVolumeSource_UnmarshalJSON sample_variants no_source
          (JObj [(''vol_id'', JNum 5)])) =
     Some (InvalidValueErrorf (VData (JObj [(''vol_id'', JNum 5)]))
       ''expected string for key "vol_id"'' []) \<and>
   fst (PersistentVolume_UnmarshalJSON sample_variants sample_codecs
          \<lparr>Meta = no_meta, Source = no_source\<rparr> (JObj [(''vol_id'', JNum 5)])) \<noteq>
     Some (InvalidValueErrorf (VData (JObj [(''vol_id'', JNum 5)]))
       ''expected string for key "vol_id"'' [])\<close>
  by (simp add: PersistentVolume_UnmarshalJSON_def PersistentVolumeSource_UnmarshalJSON_def)

section \<open>Encoding and decoding again\<close>

text \<open>
  A document with the member \<^verbatim>\<open>"modes": ""\<close> is never decoded: the empty string reaches
  \<open>InitFromString\<close>, whose error ends the decoding of the metadata, unless an error
  came before it. And a volume whose access modes are present and empty is encoded with
  that member.
\<close>

lemma set_field_empty_modes:
  "\<exists>err m'. set_field L ''modes'' (JStr []) m = (Abort err, m')"
  by (simp add: set_field_def InitFromString_def)

lemma decode_members_empty_modes:
  "(''modes'', JStr []) \<in> set kvs \<Longrightarrow> fst (decode_members L kvs m saved) \<noteq> None"
proof (induction kvs arbitrary: m saved)
  case Nil
  then show ?case by simp
next
  case (Cons kv kvs)
  obtain key j where kv: "kv = (key, j)" by (cases kv)
  obtain r m' where sf: "set_field L key j m = (r, m')" by (cases "set_field L key j m")
  show ?case
  proof (cases r)
    case Done
    with sf kv Cons show ?thesis
      using set_field_empty_modes [of L m] by auto
  next
    case (Saved e)
    with sf kv Cons show ?thesis
      using set_field_empty_modes [of L m] by auto
  next
    case (Abort e)
    with sf kv show ?thesis by simp
  qed
qed

lemma UnmarshalJSON_empty_modes:
  "(''modes'', JStr []) \<in> set kvs \<Longrightarrow>
   fst (PersistentVolume_UnmarshalJSON c L v (JObj kvs)) \<noteq> None"
  using decode_members_empty_modes [of kvs L "Meta v" None]
  by (auto simp: PersistentVolume_UnmarshalJSON_def split: prod.splits option.splits)

lemma put_string_other: "key \<noteq> k \<Longrightarrow> put_string key s obj k = obj k"
  by (simp add: put_string_def)

lemma put_pointer_other:
  "put_pointer key p enc obj = Inr obj' \<Longrightarrow> key \<noteq> k \<Longrightarrow> obj' k = obj k"
  by (auto simp: put_pointer_def split: option.splits sum.splits)

lemma Marshal_Meta_empty_modes:
  assumes "AccessModes m = Some \<lparr>Modes = []\<rparr>" and "Marshal_Meta L m = Inr metaObj"
  shows "metaObj ''modes'' = Some (JStr [])"
proof -
  from assms(2) obtain o1 o2 o3 where
    o2: "put_pointer ''modes'' (AccessModes m) AccessModes_encode o1 = Inr o2" and
    o3: "put_pointer ''claim'' (Claim m) (ObjectReference_encode L) o2 = Inr o3" and
    o4: "put_pointer ''status'' (Status m) (Status_encode L)
          (put_string ''mount_options'' (MountOptions m)
          (put_string ''storage_class'' (StorageClass m)
          (put_string ''reclaim'' (ReclaimPolicy m) o3))) = Inr metaObj"
    by (auto simp: Marshal_Meta_def then_put_def split: sum.splits)
  from o2 assms(1) have "o2 ''modes'' = Some (JStr [])"
    by (auto simp: put_pointer_def AccessModes_encode_def AccessModes_MarshalJSON_def
          split: sum.splits)
  moreover have "o3 ''modes'' = o2 ''modes''"
    using put_pointer_other [OF o3, of "''modes''"] by simp
  moreover have "metaObj ''modes'' = o3 ''modes''"
    using put_pointer_other [OF o4, of "''modes''"] by (simp add: put_string_other)
  ultimately show ?thesis by simp
qed

lemma MarshalJSON_empty_modes:
  assumes "AccessModes (Meta v) = Some \<lparr>Modes = []\<rparr>"
    and "PersistentVolume_MarshalJSON c L v = Inr out"
  shows "out ''modes'' = Some (JStr [])"
  using assms Marshal_Meta_empty_modes [of "Meta v" L]
  by (auto simp: PersistentVolume_MarshalJSON_def split: sum.splits)

lemma store_members_member:
  "store_members kvs obj k = Some x \<Longrightarrow> (k, x) \<in> set kvs \<or> obj k = Some x"
  by (induction kvs obj rule: store_members.induct) (auto split: if_splits)

text \<open>
  For all parameters: a volume with present and empty access modes that is encoded is not
  decoded from any document that spells the encoder's output, whatever the receiver.
\<close>

lemma MarshalJSON_UnmarshalJSON_empty_modes:
  assumes "AccessModes (Meta r) = Some \<lparr>Modes = []\<rparr>"
    and "PersistentVolume_MarshalJSON c L r = Inr out"
    and "store_members kvs Map.empty = out"
  shows "fst (PersistentVolume_UnmarshalJSON c L v (JObj kvs)) \<noteq> None"
proof -
  have "out ''modes'' = Some (JStr [])"
    using assms(1,2) by (rule MarshalJSON_empty_modes)
  with assms(3) have "(''modes'', JStr []) \<in> set kvs"
    using store_members_member [of kvs Map.empty "''modes''" "JStr []"] by simp
  then show ?thesis by (rule UnmarshalJSON_empty_modes)
qed

text \<open>
  C1. Claimed: encoding a valid volume with one slot set and decoding the result gives the
  volume back. The volume with the host path \<^verbatim>\<open>/data\<close> and with access modes that are
  present and empty is encoded as the object with the members \<^verbatim>\<open>"modes": ""\<close>,
  \<^verbatim>\<open>"vol_id": "/data"\<close> and \<^verbatim>\<open>"vol_type": "hostpath"\<close>; decoding that document into a
  new volume fails, because \<open>InitFromString\<close> rejects the empty string.
\<close>

theorem roundtrip_empty_modes_fails:
  "PersistentVolume_MarshalJSON sample_variants sample_codecs
      \<lparr>Meta = no_meta\<lparr>AccessModes := Some \<lparr>Modes = []\<rparr>\<rparr>,
       Source = \<lparr>GcePD = None, AwsEBS = None, HostPath = Some ''/data''\<rparr>\<rparr> =
     Inr (store_members
       [(''modes'', JStr []), (''vol_id'', JStr ''/data''), (''vol_type'', JStr ''hostpath'')]
       Map.empty) \<and>
   fst (PersistentVolume_UnmarshalJSON sample_variants sample_codecs
          \<lparr>Meta = no_meta, Source = no_source\<rparr>
          (JObj [(''modes'', JStr []), (''vol_id'', JStr ''/data''),
                 (''vol_type'', JStr ''hostpath'')])) =
     Some (InvalidValueForTypeErrorf
       (VData (JObj [(''modes'', JStr []), (''vol_id'', JStr ''/data''),
                 (''vol_type'', JStr ''hostpath'')])) TPersistentVolume
       ''couldn't unmarshal metadata from JSON: %s''
       [AErrorText (InvalidValueErrorf (VReceiver TAccessModes) ''couldn't parse (%s)''
          [AStr []])])"
proof -
  have enc: "PersistentVolume_MarshalJSON sample_variants sample_codecs
      \<lparr>Meta = no_meta\<lparr>AccessModes := Some \<lparr>Modes = []\<rparr>\<rparr>,
       Source = \<lparr>GcePD = None, AwsEBS = None, HostPath = Some ''/data''\<rparr>\<rparr> =
     Inr (store_members
       [(''modes'', JStr []), (''vol_id'', JStr ''/data''), (''vol_type'', JStr ''hostpath'')]
       Map.empty)"
    by (auto simp: PersistentVolume_MarshalJSON_def Marshal_Meta_defs no_meta_def
          PersistentVolumeSource_MarshalJSON_def marshal_slots_def marshal_result_def
          marshal_object_def sample_methods path_Marshal_def fun_eq_iff map_add_def)
  have dec: "fst (PersistentVolume_UnmarshalJSON sample_variants sample_codecs
          \<lparr>Meta = no_meta, Source = no_source\<rparr>
          (JObj [(''modes'', JStr []), (''vol_id'', JStr ''/data''),
                 (''vol_type'', JStr ''hostpath'')])) =
     Some (InvalidValueForTypeErrorf
       (VData (JObj [(''modes'', JStr []), (''vol_id'', JStr ''/data''),
                 (''vol_type'', JStr ''hostpath'')])) TPersistentVolume
       ''couldn't unmarshal metadata from JSON: %s''
       [AErrorText (InvalidValueErrorf (VReceiver TAccessModes) ''couldn't parse (%s)''
          [AStr []])])"
    by (simp add: PersistentVolume_UnmarshalJSON_def PersistentVolumeSource_UnmarshalJSON_def
          GetStringEntry_def PersistentVolumeSource_Unmarshal_def sample_tags sample_methods
          path_Unmarshal_def set_field_def no_meta_def no_source_def InitFromString_def)
  from enc dec show ?thesis by simp
qed

end
